theory Spec2Isabelle
  imports Complex_Main
begin

section \<open>QR label sheets: the layout engine of \<open>main.py\<close>\<close>

text \<open>
  The program reads a CSV table, and for every row draws a QR code of the row's \<open>lid\<close>
  and up to three text lines on a letter-size PDF canvas, column by column, page by page.

  What the embedding keeps and what it leaves to the libraries:
  \<^item> Lengths are Python floats in the source; here they are exact reals. The claims are
    about the control flow and about which expression is assigned, not about rounding.
  \<^item> The CSV text is taken as already split into rows of cells (what \<open>csv.reader\<close>
    yields); \<open>csv.DictReader\<close>'s treatment of the header, of blank rows and of short rows
    is modelled.
  \<^item> The file system is a map from paths to file contents. Reading or deleting a path
    that is not there raises. Whether a path can be written, and whether a text fits a
    QR code, is for the operating system and the QR library to say: both answers are
    parameters of the model (the environment), and both can be an exception.
  \<^item> Everything the function does to the canvas and to the file system is recorded, in
    execution order, in a trace of events. The document handed back is the canvas part of
    that trace.
\<close>

subsection \<open>Errors and values\<close>

datatype error =
    ValueError string
  | TypeError
  | KeyError string
  | FileNotFoundError string

text \<open>A cell of a \<open>DictReader\<close> row is a \<open>str\<close>, or \<open>None\<close> where the row was too short.\<close>

type_synonym pyval = "string option"

text \<open>What an f-string writes for a value: \<open>f"{v}"\<close>.\<close>

definition format_value :: "pyval \<Rightarrow> string" where
  "format_value v = (case v of None \<Rightarrow> ''None'' | Some s \<Rightarrow> s)"

subsection \<open>Layout parameters and the page\<close>

record layout_params =
  margin :: real
  text_margin :: real
  qr_img_size :: real
  line_spacing :: real
  horizontal_spacing :: real
  vertical_spacing :: real

definition set_layout_parameters ::
  "real \<Rightarrow> real \<Rightarrow> real \<Rightarrow> real \<Rightarrow> real \<Rightarrow> real \<Rightarrow> layout_params" where
  "set_layout_parameters m tm qs ls hs vs =
     \<lparr>margin = m, text_margin = tm, qr_img_size = qs, line_spacing = ls,
      horizontal_spacing = hs, vertical_spacing = vs\<rparr>"

text \<open>
  \<open>reportlab.lib.pagesizes.letter\<close>: 8.5 by 11 inches at 72 points an inch
  (width first). The constant is the library's; no theorem below depends on its value.
\<close>

definition letter :: "real \<times> real" where
  "letter = (612, 792)"

definition x_start :: "layout_params \<Rightarrow> real" where
  "x_start p = margin p"

definition y_start :: "layout_params \<Rightarrow> real" where
  "y_start p = snd letter - margin p - qr_img_size p"

subsection \<open>The QR code\<close>

datatype error_correction =
  ERROR_CORRECT_L | ERROR_CORRECT_M | ERROR_CORRECT_Q | ERROR_CORRECT_H

text \<open>
  The image is kept as what determines it: the version the library settled on, the
  settings handed to \<open>qrcode.QRCode\<close> and to \<open>make_image\<close>, and the data added. The
  encoding of the modules is the library's.
\<close>

record qr_img =
  qr_version :: nat
  qr_error_correction :: error_correction
  qr_box_size :: nat
  qr_border :: nat
  qr_data :: pyval
  qr_fill :: string
  qr_back_color :: string

text \<open>
  What the program cannot decide by itself:
  \<^item> \<open>best_fit start level data\<close> is \<open>qr.make(fit=True)\<close> for a code set up with version
    \<open>start\<close>: the version the library settles on, or the exception it raises when the
    data fits no version;
  \<^item> \<open>save_error path\<close> is the exception that writing a file at \<open>path\<close> raises, if any
    (a directory that is not there, a name the file system refuses).
\<close>

record env =
  best_fit :: "nat \<Rightarrow> error_correction \<Rightarrow> pyval \<Rightarrow> error + nat"
  save_error :: "string \<Rightarrow> error option"

definition generate_qr_code :: "env \<Rightarrow> pyval \<Rightarrow> error + qr_img" where
  "generate_qr_code ev d =
     (case best_fit ev 1 ERROR_CORRECT_L d of
        Inl e \<Rightarrow> Inl e
      | Inr v \<Rightarrow>
          Inr \<lparr>qr_version = v, qr_error_correction = ERROR_CORRECT_L, qr_box_size = 2,
               qr_border = 1, qr_data = d, qr_fill = ''black'', qr_back_color = ''white''\<rparr>)"




subsection \<open>Effects: the canvas and the file system\<close>

datatype event =
    ShowPage
  | Save string qr_img
  | DrawImage string qr_img real real real real
  | SetFont string nat
  | SetFillColor string
  | DrawString real real string
  | Remove string

record world =
  files :: "string \<rightharpoonup> qr_img"
  trace :: "event list"

definition emit :: "event \<Rightarrow> world \<Rightarrow> world" where
  "emit e w = w\<lparr>trace := trace w @ [e]\<rparr>"

text \<open>\<open>qr_img.save(path)\<close>: the file is created or overwritten, unless writing raises.\<close>

definition qr_save :: "env \<Rightarrow> qr_img \<Rightarrow> string \<Rightarrow> world \<Rightarrow> (error \<times> world) + world" where
  "qr_save ev img path w =
     (case save_error ev path of
        Some e \<Rightarrow> Inl (e, w)
      | None \<Rightarrow> Inr (emit (Save path img) (w\<lparr>files := (files w)(path \<mapsto> img)\<rparr>)))"

text \<open>
  \<open>c.drawImage(path, x, y, width, height)\<close>: the canvas reads the file at \<open>path\<close>; the
  event records what was read. (The canvas keeps one image per file name. The path is
  made from the \<open>lid\<close> and the image is determined by the \<open>lid\<close>, so a second
  reading of a name gives the image the first gave.)
\<close>

definition drawImage ::
  "string \<Rightarrow> real \<Rightarrow> real \<Rightarrow> real \<Rightarrow> real \<Rightarrow> world \<Rightarrow> (error \<times> world) + world" where
  "drawImage path x y width height w =
     (case files w path of
        None \<Rightarrow> Inl (FileNotFoundError path, w)
      | Some img \<Rightarrow> Inr (emit (DrawImage path img x y width height) w))"

text \<open>\<open>os.remove(path)\<close>.\<close>

definition os_remove :: "string \<Rightarrow> world \<Rightarrow> (error \<times> world) + world" where
  "os_remove path w =
     (case files w path of
        None \<Rightarrow> Inl (FileNotFoundError path, w)
      | Some _ \<Rightarrow> Inr (emit (Remove path) (w\<lparr>files := (files w)(path := None)\<rparr>)))"

text \<open>The canvas operations of a trace: the document.\<close>

fun canvas_event :: "event \<Rightarrow> bool" where
  "canvas_event (Save _ _) = False"
| "canvas_event (Remove _) = False"
| "canvas_event _ = True"

definition document :: "world \<Rightarrow> event list" where
  "document w = filter canvas_event (trace w)"

subsection \<open>The CSV reader\<close>

text \<open>
  \<open>csv.DictReader\<close> over the rows that \<open>csv.reader\<close> yields. The field names are the
  first row, and \<open>None\<close> when there is none. Each later row that is not blank becomes a
  dictionary: \<open>dict(zip(fieldnames, row))\<close>, then \<open>None\<close> for every field name the row
  is too short for (cells beyond the header go under the key \<open>None\<close>, which no lookup
  here uses).
\<close>

definition fieldnames :: "string list list \<Rightarrow> string list option" where
  "fieldnames rs = (case rs of [] \<Rightarrow> None | h # _ \<Rightarrow> Some h)"

definition row_dict :: "string list \<Rightarrow> string list \<Rightarrow> (string \<rightharpoonup> pyval)" where
  "row_dict hs r =
     fold (\<lambda>(k, v) d. d(k \<mapsto> v))
       (zip hs (map Some r @ replicate (length hs - length r) None)) Map.empty"

definition dict_rows :: "string list \<Rightarrow> string list list \<Rightarrow> (string \<rightharpoonup> pyval) list" where
  "dict_rows hs rs = map (row_dict hs) (filter (\<lambda>r. r \<noteq> []) rs)"

text \<open>\<open>for row in reader\<close>: the rows the reader yields; none when the file is empty.\<close>

definition reader_rows :: "string list list \<Rightarrow> (string \<rightharpoonup> pyval) list" where
  "reader_rows rs =
     (case fieldnames rs of None \<Rightarrow> [] | Some hs \<Rightarrow> dict_rows hs (tl rs))"

definition required_headers :: "string set" where
  "required_headers = {''project'', ''ID'', ''lid''}"

subsection \<open>The record loop\<close>

text \<open>Lines 63 and 64: the cursor goes to the top of the next column.\<close>

definition next_column :: "layout_params \<Rightarrow> real \<times> real \<Rightarrow> real \<times> real" where
  "next_column p c =
     (case c of (x, y) \<Rightarrow> (x + (qr_img_size p + horizontal_spacing p), y_start p))"

text \<open>Lines 66 to 68: at the right edge a new page starts; the flag says so.\<close>

definition new_page_check :: "layout_params \<Rightarrow> real \<times> real \<Rightarrow> bool \<times> real \<times> real" where
  "new_page_check p c =
     (case c of (x, y) \<Rightarrow>
        if x + qr_img_size p > fst letter - margin p then (True, x_start p, y)
        else (False, x, y))"

text \<open>Lines 62 to 68: the page check is inside the column check.\<close>

definition wrap_cursor :: "layout_params \<Rightarrow> real \<times> real \<Rightarrow> bool \<times> real \<times> real" where
  "wrap_cursor p c =
     (case c of (x, y) \<Rightarrow>
        if y < margin p then new_page_check p (next_column p (x, y))
        else (False, x, y))"

text \<open>
  Lines 82 to 95: the text lines to the right of the image. The local \<open>text_y\<close> is
  returned with the world, so that its last value can be spoken of; the loop drops it.
\<close>

definition draw_text ::
  "layout_params \<Rightarrow> string list \<Rightarrow> real \<Rightarrow> real \<Rightarrow> pyval \<Rightarrow> pyval \<Rightarrow> pyval \<Rightarrow> world
     \<Rightarrow> world \<times> real" where
  "draw_text p fields_to_display x y p_value id_value lid_value w =
     (let text_x = x + qr_img_size p + text_margin p;
          w = emit (SetFont ''Helvetica-Bold'' 6) w;
          w = emit (SetFillColor ''black'') w;
          text_y = y + 2.2 * line_spacing p;
          (w, text_y) =
            (if ''Project'' \<in> set fields_to_display
             then (emit (DrawString text_x text_y (''Project: '' @ format_value p_value)) w,
                   text_y - line_spacing p)
             else (w, text_y));
          (w, text_y) =
            (if ''ID'' \<in> set fields_to_display
             then (emit (DrawString text_x text_y (''ID: '' @ format_value id_value)) w,
                   text_y - line_spacing p)
             else (w, text_y));
          w =
            (if ''LID'' \<in> set fields_to_display
             then emit (DrawString text_x text_y (''LID: '' @ format_value lid_value)) w
             else w)
      in (w, text_y))"

text \<open>Lines 62 to 99: one iteration, from the cursor and the world to the next ones.\<close>

definition step ::
  "env \<Rightarrow> layout_params \<Rightarrow> string list \<Rightarrow> (string \<rightharpoonup> pyval) \<Rightarrow> real \<times> real \<times> world
     \<Rightarrow> (error \<times> world) + (real \<times> real \<times> world)" where
  "step ev p fields_to_display row s =
     (case s of (x, y, w) \<Rightarrow>
      (case wrap_cursor p (x, y) of (brk, x, y) \<Rightarrow>
       let w = (if brk then emit ShowPage w else w) in
       (case row ''project'' of None \<Rightarrow> Inl (KeyError ''project'', w) | Some p_value \<Rightarrow>
       (case row ''ID'' of None \<Rightarrow> Inl (KeyError ''ID'', w) | Some id_value \<Rightarrow>
       (case row ''lid'' of None \<Rightarrow> Inl (KeyError ''lid'', w) | Some lid_value \<Rightarrow>
       (case generate_qr_code ev lid_value of Inl e \<Rightarrow> Inl (e, w) | Inr qr \<Rightarrow>
        let qr_img_path = format_value lid_value @ ''_qrcode.png'' in
        (case qr_save ev qr qr_img_path w of
           Inl e \<Rightarrow> Inl e
         | Inr w \<Rightarrow>
        (case drawImage qr_img_path x y (qr_img_size p) (qr_img_size p) w of
           Inl e \<Rightarrow> Inl e
         | Inr w \<Rightarrow>
            let w = fst (draw_text p fields_to_display x y p_value id_value lid_value w) in
            (case os_remove qr_img_path w of
               Inl e \<Rightarrow> Inl e
             | Inr w \<Rightarrow>
                Inr (x, y - (qr_img_size p + vertical_spacing p + 3 * line_spacing p),
                     w))))))))))"

fun rows_loop ::
  "env \<Rightarrow> layout_params \<Rightarrow> string list \<Rightarrow> (string \<rightharpoonup> pyval) list \<Rightarrow> real \<times> real \<times> world
     \<Rightarrow> (error \<times> world) + (real \<times> real \<times> world)" where
  "rows_loop ev p fields_to_display [] s = Inr s"
| "rows_loop ev p fields_to_display (row # rows) s =
     (case step ev p fields_to_display row s of
        Inl e \<Rightarrow> Inl e
      | Inr s' \<Rightarrow> rows_loop ev p fields_to_display rows s')"

subsection \<open>The report\<close>

text \<open>
  Lines 46 to 48: the header check, given the reader's field names. The result is the
  exception raised, if any. \<open>required_headers.issubset(None)\<close> is a \<open>TypeError\<close> in
  Python.
\<close>

definition check_headers :: "string list option \<Rightarrow> error option" where
  "check_headers names =
     (case names of
        None \<Rightarrow> Some TypeError
      | Some hs \<Rightarrow>
          if \<not> required_headers \<subseteq> set hs
          then Some (ValueError ''CSV file is missing required headers'')
          else None)"

text \<open>
  \<open>generate_child_health_report\<close>, given the rows of the CSV file and the files of the
  working directory. The canvas starts empty. An exception carries the world it leaves
  behind.
\<close>

definition generate_child_health_report ::
  "env \<Rightarrow> string list list \<Rightarrow> layout_params \<Rightarrow> string list \<Rightarrow> (string \<rightharpoonup> qr_img)
     \<Rightarrow> (error \<times> world) + (event list \<times> world)" where
  "generate_child_health_report ev input_rows p fields_to_display fs =
     (let w = \<lparr>files = fs, trace = []\<rparr> in
      case check_headers (fieldnames input_rows) of
        Some e \<Rightarrow> Inl (e, w)
      | None \<Rightarrow>
          (case rows_loop ev p fields_to_display (reader_rows input_rows)
                  (x_start p, y_start p, w) of
             Inl e \<Rightarrow> Inl e
           | Inr (x, y, w') \<Rightarrow> Inr (document w', w')))"

section \<open>Closed forms and views\<close>

text \<open>
  Nothing below is part of the program. These definitions say, without the error
  plumbing, what one iteration and the whole loop emit, and they read labels, page tops
  and the life of the temporary files off a trace. Each closed form is proved equal to
  the program's own function before it is used.
\<close>

definition qr_img_path :: "pyval \<Rightarrow> string" where
  "qr_img_path lv = format_value lv @ ''_qrcode.png''"

definition qr_image :: "nat \<Rightarrow> pyval \<Rightarrow> qr_img" where
  "qr_image v d =
     \<lparr>qr_version = v, qr_error_correction = ERROR_CORRECT_L, qr_box_size = 2,
      qr_border = 1, qr_data = d, qr_fill = ''black'', qr_back_color = ''white''\<rparr>"

text \<open>The three cells the loop reads from a row, when the row has all three keys.\<close>

definition cells :: "(string \<rightharpoonup> pyval) \<Rightarrow> (pyval \<times> pyval \<times> pyval) option" where
  "cells row =
     (case row ''project'' of None \<Rightarrow> None | Some pv \<Rightarrow>
      (case row ''ID'' of None \<Rightarrow> None | Some iv \<Rightarrow>
       (case row ''lid'' of None \<Rightarrow> None | Some lv \<Rightarrow> Some (pv, iv, lv))))"

text \<open>
  A row the iteration gets through: it has the three cells, its \<open>lid\<close> fits a QR code
  (of the version given) and its temporary file can be written.
\<close>

definition prepared ::
  "env \<Rightarrow> (string \<rightharpoonup> pyval) \<Rightarrow> (pyval \<times> pyval \<times> pyval \<times> nat) option" where
  "prepared ev row =
     (case cells row of None \<Rightarrow> None | Some (pv, iv, lv) \<Rightarrow>
      (case best_fit ev 1 ERROR_CORRECT_L lv of Inl e \<Rightarrow> None | Inr v \<Rightarrow>
       (case save_error ev (qr_img_path lv) of Some e \<Rightarrow> None | None \<Rightarrow>
          Some (pv, iv, lv, v))))"

definition text_events ::
  "layout_params \<Rightarrow> string list \<Rightarrow> real \<Rightarrow> real \<Rightarrow> pyval \<Rightarrow> pyval \<Rightarrow> pyval \<Rightarrow> event list" where
  "text_events p fs x y pv iv lv =
     [SetFont ''Helvetica-Bold'' 6, SetFillColor ''black''] @
     (if ''Project'' \<in> set fs
      then [DrawString (x + qr_img_size p + text_margin p) (y + 2.2 * line_spacing p)
              (''Project: '' @ format_value pv)] else []) @
     (if ''ID'' \<in> set fs
      then [DrawString (x + qr_img_size p + text_margin p)
              (if ''Project'' \<in> set fs then y + 2.2 * line_spacing p - line_spacing p
               else y + 2.2 * line_spacing p)
              (''ID: '' @ format_value iv)] else []) @
     (if ''LID'' \<in> set fs
      then [DrawString (x + qr_img_size p + text_margin p)
              (if ''Project'' \<in> set fs
               then (if ''ID'' \<in> set fs
                     then y + 2.2 * line_spacing p - line_spacing p - line_spacing p
                     else y + 2.2 * line_spacing p - line_spacing p)
               else (if ''ID'' \<in> set fs then y + 2.2 * line_spacing p - line_spacing p
                     else y + 2.2 * line_spacing p))
              (''LID: '' @ format_value lv)] else [])"

definition label_events ::
  "layout_params \<Rightarrow> string list \<Rightarrow> pyval \<times> pyval \<times> pyval \<times> nat \<Rightarrow> real \<times> real \<Rightarrow> event list" where
  "label_events p fs t c =
     (case t of (pv, iv, lv, v) \<Rightarrow>
      (case wrap_cursor p c of (brk, x, y) \<Rightarrow>
        (if brk then [ShowPage] else []) @
        [Save (qr_img_path lv) (qr_image v lv),
         DrawImage (qr_img_path lv) (qr_image v lv) x y (qr_img_size p) (qr_img_size p)] @
        text_events p fs x y pv iv lv @
        [Remove (qr_img_path lv)]))"

definition next_cursor :: "layout_params \<Rightarrow> real \<times> real \<Rightarrow> real \<times> real" where
  "next_cursor p c =
     (case wrap_cursor p c of (brk, x, y) \<Rightarrow>
        (x, y - (qr_img_size p + vertical_spacing p + 3 * line_spacing p)))"

fun loop_events ::
  "layout_params \<Rightarrow> string list \<Rightarrow> (pyval \<times> pyval \<times> pyval \<times> nat) list \<Rightarrow> real \<times> real
     \<Rightarrow> event list" where
  "loop_events p fs [] c = []"
| "loop_events p fs (t # ts) c = label_events p fs t c @ loop_events p fs ts (next_cursor p c)"

fun loop_cursor :: "layout_params \<Rightarrow> nat \<Rightarrow> real \<times> real \<Rightarrow> real \<times> real" where
  "loop_cursor p 0 c = c"
| "loop_cursor p (Suc n) c = loop_cursor p n (next_cursor p c)"

fun remove_paths ::
  "(pyval \<times> pyval \<times> pyval \<times> nat) list \<Rightarrow> (string \<rightharpoonup> qr_img) \<Rightarrow> (string \<rightharpoonup> qr_img)" where
  "remove_paths [] m = m"
| "remove_paths (t # ts) m = remove_paths ts (m(qr_img_path (fst (snd (snd t))) := None))"

text \<open>What an iteration added to the trace.\<close>

definition new_events :: "world \<Rightarrow> world \<Rightarrow> event list" where
  "new_events w w' = drop (length (trace w)) (trace w')"







text \<open>
  The header set of a table, as the spec speaks of it: the names of the header row,
  and no name at all when there is no header row.
\<close>

definition header_set :: "string list list \<Rightarrow> string set" where
  "header_set rs = (case fieldnames rs of None \<Rightarrow> {} | Some hs \<Rightarrow> set hs)"


text \<open>The life of the temporary image files, as the trace shows it.\<close>

datatype artifact_event = Created string | Placed string | Released string

fun lifecycle :: "event list \<Rightarrow> artifact_event list" where
  "lifecycle [] = []"
| "lifecycle (Save path img # es) = Created path # lifecycle es"
| "lifecycle (DrawImage path img x y width height # es) = Placed path # lifecycle es"
| "lifecycle (Remove path # es) = Released path # lifecycle es"
| "lifecycle (e # es) = lifecycle es"

definition row_lifecycle :: "(string \<rightharpoonup> pyval) \<Rightarrow> artifact_event list" where
  "row_lifecycle row =
     (case row ''lid'' of None \<Rightarrow> []
      | Some lv \<Rightarrow> [Created (qr_img_path lv), Placed (qr_img_path lv), Released (qr_img_path lv)])"

text \<open>Every page break in a document is followed at once by an image at the top left.\<close>

definition top_image :: "layout_params \<Rightarrow> event \<Rightarrow> bool" where
  "top_image p e =
     (case e of DrawImage path img x y width height \<Rightarrow> x = x_start p \<and> y = y_start p
      | _ \<Rightarrow> False)"

fun page_tops :: "layout_params \<Rightarrow> event list \<Rightarrow> bool" where
  "page_tops p [] = True"
| "page_tops p [ShowPage] = False"
| "page_tops p (ShowPage # e # es) = (top_image p e \<and> page_tops p (e # es))"
| "page_tops p (e # es) = page_tops p es"

fun image_positions :: "event list \<Rightarrow> (real \<times> real) list" where
  "image_positions [] = []"
| "image_positions (DrawImage path img x y width height # es) = (x, y) # image_positions es"
| "image_positions (e # es) = image_positions es"

text \<open>
  Concrete inputs, for the worked instances. The environment is one for short data
  in a directory without subdirectories: data of at most 17 bytes fits the starting
  version (17 bytes is what version 1 holds at level L), longer data is refused here,
  and a path with a slash cannot be written.
\<close>

definition ex_env :: env where
  "ex_env =
     \<lparr>best_fit = (\<lambda>start level d.
         if length (format_value d) \<le> 17 then Inr start
         else Inl (ValueError ''Invalid version'')),
      save_error = (\<lambda>path.
         if CHR ''/'' \<in> set path then Some (FileNotFoundError path) else None)\<rparr>"

definition ex_params :: layout_params where
  "ex_params = set_layout_parameters 100 2 50 8 20 10"

definition ex_row :: "string \<rightharpoonup> pyval" where
  "ex_row = row_dict [''project'', ''ID'', ''lid''] [''P1'', ''A1'', ''L1'']"

definition ex_world :: world where
  "ex_world = \<lparr>files = Map.empty, trace = []\<rparr>"

definition ex_table :: "string list list" where
  "ex_table = [[''project'', ''ID'', ''lid''], [''P1'', ''A1'', ''L1''], [''P2'', ''A2'', ''L2'']]"

definition ex_slash :: "string list list" where
  "ex_slash = [[''project'', ''ID'', ''lid''], [''P1'', ''A1'', ''a/b'']]"

definition ex_wide :: layout_params where
  "ex_wide = set_layout_parameters 100 2 50 8 400 600"

section \<open>Lemmas\<close>

subsection \<open>One iteration and the loop, in closed form\<close>

lemma draw_text_trace:
  "fst (draw_text p fs x y pv iv lv w) = w\<lparr>trace := trace w @ text_events p fs x y pv iv lv\<rparr>"
  by (simp add: draw_text_def text_events_def emit_def Let_def)

lemma generate_qr_code_fit:
  "best_fit ev 1 ERROR_CORRECT_L lv = Inr v \<Longrightarrow> generate_qr_code ev lv = Inr (qr_image v lv)"
  by (simp add: generate_qr_code_def qr_image_def)

lemma generate_qr_code_Inr:
  "generate_qr_code ev lv = Inr img \<Longrightarrow>
   \<exists>v. best_fit ev 1 ERROR_CORRECT_L lv = Inr v \<and> img = qr_image v lv"
  by (auto simp: generate_qr_code_def qr_image_def split: sum.splits)

lemma prepared_SomeD:
  assumes "prepared ev row = Some (pv, iv, lv, v)"
  shows "row ''project'' = Some pv" "row ''ID'' = Some iv" "row ''lid'' = Some lv"
    "cells row = Some (pv, iv, lv)"
    "best_fit ev 1 ERROR_CORRECT_L lv = Inr v" "save_error ev (qr_img_path lv) = None"
  using assms
  by (auto simp: prepared_def cells_def split: option.splits sum.splits)


lemma step_closed:
  assumes "prepared ev row = Some (pv, iv, lv, v)"
  shows "step ev p fs row (x, y, w) =
           Inr (fst (next_cursor p (x, y)), snd (next_cursor p (x, y)),
                \<lparr>files = (files w)(qr_img_path lv := None),
                 trace = trace w @ label_events p fs (pv, iv, lv, v) (x, y)\<rparr>)"
proof -
  note r = prepared_SomeD [OF assms]
  have s: "save_error ev (format_value lv @ ''_qrcode.png'') = None"
    using r(6) by (simp add: qr_img_path_def)
  obtain brk x1 y1 where wc: "wrap_cursor p (x, y) = (brk, x1, y1)"
    by (cases "wrap_cursor p (x, y)") auto
  show ?thesis
    by (simp add: step_def r(1,2,3) generate_qr_code_fit [OF r(5)] s wc Let_def qr_save_def
        drawImage_def os_remove_def emit_def draw_text_trace label_events_def next_cursor_def
        qr_img_path_def)
qed

lemma step_Inr_prepared:
  assumes "step ev p fs row s = Inr r"
  shows "\<exists>pv iv lv v. prepared ev row = Some (pv, iv, lv, v)"
proof -
  obtain x y w where s: "s = (x, y, w)" by (cases s) auto
  obtain brk x1 y1 where wc: "wrap_cursor p (x, y) = (brk, x1, y1)"
    by (cases "wrap_cursor p (x, y)") auto
  from assms obtain pv iv lv img where
    c: "row ''project'' = Some pv" "row ''ID'' = Some iv" "row ''lid'' = Some lv"
    and g: "generate_qr_code ev lv = Inr img"
    and sv: "save_error ev (format_value lv @ ''_qrcode.png'') = None"
    by (auto simp: step_def s wc Let_def qr_save_def split: option.splits sum.splits)
  obtain v where "best_fit ev 1 ERROR_CORRECT_L lv = Inr v"
    using generate_qr_code_Inr [OF g] by blast
  then have "prepared ev row = Some (pv, iv, lv, v)"
    using c sv by (simp add: prepared_def cells_def qr_img_path_def)
  then show ?thesis by blast
qed

lemma step_Inl_files:
  assumes "step ev p fs row (x, y, w) = Inl (e, w')"
  shows "files w' = files w"
proof -
  obtain brk x1 y1 where wc: "wrap_cursor p (x, y) = (brk, x1, y1)"
    by (cases "wrap_cursor p (x, y)") auto
  show ?thesis
    using assms
    by (auto simp: step_def wc Let_def qr_save_def drawImage_def os_remove_def emit_def
        draw_text_trace split: option.splits sum.splits if_splits)
qed

lemma remove_paths_apply:
  "remove_paths ts m q =
     (if q \<in> (\<lambda>t. qr_img_path (fst (snd (snd t)))) ` set ts then None else m q)"
  by (induction ts arbitrary: m) auto

lemma rows_loop_closed:
  "map (prepared ev) rows = map Some ts \<Longrightarrow>
   rows_loop ev p fs rows (x, y, w) =
     Inr (fst (loop_cursor p (length ts) (x, y)), snd (loop_cursor p (length ts) (x, y)),
          \<lparr>files = remove_paths ts (files w),
           trace = trace w @ loop_events p fs ts (x, y)\<rparr>)"
proof (induction rows arbitrary: ts x y w)
  case Nil
  then show ?case by simp
next
  case (Cons row rows)
  then obtain t ts' where ts: "ts = t # ts'" "prepared ev row = Some t"
    "map (prepared ev) rows = map Some ts'"
    by (cases ts) auto
  obtain pv iv lv v where t: "t = (pv, iv, lv, v)" by (cases t) auto
  obtain x1 y1 where nc: "next_cursor p (x, y) = (x1, y1)" by (cases "next_cursor p (x, y)") auto
  define w1 where "w1 = \<lparr>files = (files w)(qr_img_path lv := None),
                           trace = trace w @ label_events p fs (pv, iv, lv, v) (x, y)\<rparr>"
  have "step ev p fs row (x, y, w) = Inr (x1, y1, w1)"
    using step_closed [of ev row pv iv lv v p fs x y w] ts(2) by (simp add: t nc w1_def)
  then have "rows_loop ev p fs (row # rows) (x, y, w) = rows_loop ev p fs rows (x1, y1, w1)"
    by simp
  also have "\<dots> = Inr (fst (loop_cursor p (length ts') (x1, y1)),
                        snd (loop_cursor p (length ts') (x1, y1)),
                        \<lparr>files = remove_paths ts' (files w1),
                         trace = trace w1 @ loop_events p fs ts' (x1, y1)\<rparr>)"
    by (rule Cons.IH [OF ts(3)])
  finally show ?case
    by (simp add: ts(1) t nc w1_def)
qed

lemma rows_loop_Inr_prepared:
  "rows_loop ev p fs rows s = Inr r \<Longrightarrow> \<exists>ts. map (prepared ev) rows = map Some ts"
proof (induction rows arbitrary: s)
  case Nil
  show ?case by simp
next
  case (Cons row rows)
  then obtain s' where s': "step ev p fs row s = Inr s'" "rows_loop ev p fs rows s' = Inr r"
    by (auto split: sum.splits)
  obtain t where t: "prepared ev row = Some t"
    using step_Inr_prepared [OF s'(1)] by blast
  obtain ts where "map (prepared ev) rows = map Some ts"
    using Cons.IH [OF s'(2)] by blast
  then have "map (prepared ev) (row # rows) = map Some (t # ts)"
    using t by simp
  then show ?case by blast
qed

lemma rows_loop_Inl_dom:
  "rows_loop ev p fs rows (x, y, w) = Inl (e, w') \<Longrightarrow> dom (files w') \<subseteq> dom (files w)"
proof (induction rows arbitrary: x y w)
  case Nil
  then show ?case by simp
next
  case (Cons row rows)
  show ?case
  proof (cases "step ev p fs row (x, y, w)")
    case (Inl a)
    then have "step ev p fs row (x, y, w) = Inl (e, w')"
      using Cons.prems by simp
    then show ?thesis using step_Inl_files by fastforce
  next
    case (Inr s')
    obtain x1 y1 w1 where s': "s' = (x1, y1, w1)" by (cases s') auto
    obtain pv iv lv v where t: "prepared ev row = Some (pv, iv, lv, v)"
      using step_Inr_prepared [OF Inr] by blast
    have "files w1 = (files w)(qr_img_path lv := None)"
      using Inr by (auto simp: step_closed [OF t] s')
    then have "dom (files w1) \<subseteq> dom (files w)" by auto
    moreover have "dom (files w') \<subseteq> dom (files w1)"
      using Cons.prems Inr Cons.IH [of x1 y1 w1] by (simp add: s')
    ultimately show ?thesis by blast
  qed
qed

subsection \<open>Every row of the reader has the header's keys\<close>








lemma report_closed:
  assumes "check_headers (fieldnames input_rows) = None"
    and "map (prepared ev) (reader_rows input_rows) = map Some ts"
  shows "generate_child_health_report ev input_rows p fs fsys =
           Inr (filter canvas_event (loop_events p fs ts (x_start p, y_start p)),
                \<lparr>files = remove_paths ts fsys,
                 trace = loop_events p fs ts (x_start p, y_start p)\<rparr>)"
  using assms
  by (simp add: generate_child_health_report_def rows_loop_closed document_def)

lemma report_Inr:
  assumes "generate_child_health_report ev input_rows p fs fsys = Inr (doc, w')"
  shows "check_headers (fieldnames input_rows) = None
         \<and> (\<exists>ts. map (prepared ev) (reader_rows input_rows) = map Some ts)"
proof -
  have c: "check_headers (fieldnames input_rows) = None"
    using assms
    by (cases "check_headers (fieldnames input_rows)")
       (simp_all add: generate_child_health_report_def)
  then obtain r where
    "rows_loop ev p fs (reader_rows input_rows) (x_start p, y_start p, \<lparr>files = fsys, trace = []\<rparr>)
       = Inr r"
    using assms
    by (cases "rows_loop ev p fs (reader_rows input_rows)
                 (x_start p, y_start p, \<lparr>files = fsys, trace = []\<rparr>)")
       (simp_all add: generate_child_health_report_def)
  then show ?thesis
    using c rows_loop_Inr_prepared by blast
qed

subsection \<open>Views of one iteration\<close>

lemma image_positions_append:
  "image_positions (es @ es') = image_positions es @ image_positions es'"
  by (induction es rule: image_positions.induct) auto

lemma image_positions_text: "image_positions (text_events p fs x y pv iv lv) = []"
  by (simp add: text_events_def)



lemma step_new_events:
  assumes "step ev p fs row (x, y, w) = Inr (x', y', w')"
  shows "\<exists>pv iv lv v. prepared ev row = Some (pv, iv, lv, v) \<and>
           new_events w w' = label_events p fs (pv, iv, lv, v) (x, y) \<and>
           (x', y') = next_cursor p (x, y) \<and>
           files w' = (files w)(qr_img_path lv := None)"
proof -
  obtain pv iv lv v where c: "prepared ev row = Some (pv, iv, lv, v)"
    using step_Inr_prepared [OF assms] by blast
  show ?thesis
    using assms by (auto simp: step_closed [OF c] c new_events_def)
qed

subsection \<open>Labels of the whole loop\<close>





lemma canvas_text_events:
  "filter canvas_event (text_events p fs x y pv iv lv) = text_events p fs x y pv iv lv"
  by (simp add: text_events_def)

lemma canvas_label_events:
  "filter canvas_event (label_events p fs (pv, iv, lv, v) c) =
     (if fst (wrap_cursor p c) then [ShowPage] else []) @
     DrawImage (qr_img_path lv) (qr_image v lv) (fst (snd (wrap_cursor p c)))
       (snd (snd (wrap_cursor p c))) (qr_img_size p) (qr_img_size p) #
     text_events p fs (fst (snd (wrap_cursor p c))) (snd (snd (wrap_cursor p c))) pv iv lv"
  by (cases "wrap_cursor p c") (simp add: label_events_def canvas_text_events)







subsection \<open>The temporary files\<close>

lemma lifecycle_append: "lifecycle (es @ es') = lifecycle es @ lifecycle es'"
  by (induction es rule: lifecycle.induct) auto

lemma lifecycle_text: "lifecycle (text_events p fs x y pv iv lv) = []"
  by (simp add: text_events_def)

lemma lifecycle_label:
  "lifecycle (label_events p fs (pv, iv, lv, v) c) =
     [Created (qr_img_path lv), Placed (qr_img_path lv), Released (qr_img_path lv)]"
  by (cases "wrap_cursor p c") (simp add: label_events_def lifecycle_append lifecycle_text)

lemma lifecycle_loop:
  "map (prepared ev) rows = map Some ts \<Longrightarrow>
   lifecycle (loop_events p fs ts c) = concat (map row_lifecycle rows)"
proof (induction rows arbitrary: ts c)
  case Nil
  then show ?case by simp
next
  case (Cons row rows)
  then obtain t ts' where ts: "ts = t # ts'" "prepared ev row = Some t"
    "map (prepared ev) rows = map Some ts'"
    by (cases ts) auto
  obtain pv iv lv v where t: "t = (pv, iv, lv, v)" by (cases t) auto
  have "row ''lid'' = Some lv"
    using ts(2) prepared_SomeD(3) by (simp add: t)
  then show ?case
    using Cons.IH [OF ts(3)]
    by (simp add: ts(1) t lifecycle_append lifecycle_label row_lifecycle_def)
qed

lemma prepared_lid_paths:
  "map (prepared ev) rows = map Some ts \<Longrightarrow> row \<in> set rows \<Longrightarrow> row ''lid'' = Some lv \<Longrightarrow>
   qr_img_path lv \<in> (\<lambda>t. qr_img_path (fst (snd (snd t)))) ` set ts"
proof (induction rows arbitrary: ts)
  case Nil
  then show ?case by simp
next
  case (Cons r rows)
  then obtain t ts' where ts: "ts = t # ts'" "prepared ev r = Some t"
    "map (prepared ev) rows = map Some ts'"
    by (cases ts) auto
  obtain pv iv lv' v where t: "t = (pv, iv, lv', v)" by (cases t) auto
  show ?case
  proof (cases "row = r")
    case True
    have "r ''lid'' = Some lv'"
      using ts(2) prepared_SomeD(3) by (simp add: t)
    then have "lv' = lv" using True Cons.prems(3) by simp
    then show ?thesis by (simp add: ts(1) t)
  next
    case False
    then have "row \<in> set rows" using Cons.prems(2) by simp
    then show ?thesis using Cons.IH [OF ts(3) _ Cons.prems(3)] by (simp add: ts(1))
  qed
qed

subsection \<open>Page tops\<close>

lemma wrap_cursor_break:
  "wrap_cursor p (x, y) = (True, x1, y1) \<Longrightarrow> y < margin p \<and> x1 = x_start p \<and> y1 = y_start p"
  by (auto simp: wrap_cursor_def new_page_check_def next_column_def split: if_splits)

lemma page_tops_skip: "\<forall>e\<in>set es. e \<noteq> ShowPage \<Longrightarrow> page_tops p (es @ rest) = page_tops p rest"
proof (induction es)
  case Nil
  show ?case by simp
next
  case (Cons e es)
  then show ?case by (cases e) auto
qed

lemma text_events_no_page: "\<forall>e\<in>set (text_events p fs x y pv iv lv). e \<noteq> ShowPage"
  by (simp add: text_events_def)

lemma page_tops_label:
  "page_tops p (filter canvas_event (label_events p fs (pv, iv, lv, v) c) @ rest)
     = page_tops p rest"
proof -
  obtain brk x1 y1 where wc: "wrap_cursor p c = (brk, x1, y1)"
    by (cases "wrap_cursor p c") auto
  obtain x y where c: "c = (x, y)" by (cases c) auto
  show ?thesis
  proof (cases brk)
    case True
    then have "x1 = x_start p" "y1 = y_start p"
      using wrap_cursor_break [of p x y x1 y1] wc c by simp_all
    then show ?thesis
      using True
      by (simp add: canvas_label_events wc top_image_def page_tops_skip text_events_no_page)
  next
    case False
    then show ?thesis
      by (simp add: canvas_label_events wc page_tops_skip text_events_no_page)
  qed
qed

lemma page_tops_loop: "page_tops p (filter canvas_event (loop_events p fs ts c))"
proof (induction ts arbitrary: c)
  case Nil
  show ?case by simp
next
  case (Cons t ts)
  obtain pv iv lv v where t: "t = (pv, iv, lv, v)" by (cases t) auto
  show ?case by (simp add: t page_tops_label Cons.IH)
qed

lemma page_tops_Cons:
  "page_tops p (e # es) =
     ((e = ShowPage \<longrightarrow> es \<noteq> [] \<and> top_image p (hd es)) \<and> page_tops p es)"
proof (cases es)
  case Nil
  then show ?thesis by (cases e) simp_all
next
  case (Cons e' es')
  then show ?thesis by (cases e) simp_all
qed

lemma page_tops_nth:
  "page_tops p es \<Longrightarrow> i < length es \<Longrightarrow> es ! i = ShowPage \<Longrightarrow>
   Suc i < length es \<and> top_image p (es ! Suc i)"
proof (induction es arbitrary: i)
  case Nil
  then show ?case by simp
next
  case (Cons e es)
  have pt: "page_tops p es" and hd: "e = ShowPage \<longrightarrow> es \<noteq> [] \<and> top_image p (hd es)"
    using Cons.prems(1) unfolding page_tops_Cons by blast+
  show ?case
  proof (cases i)
    case 0
    then have "e = ShowPage" using Cons.prems(3) by simp
    with hd have "es \<noteq> []" "top_image p (hd es)" by simp_all
    then show ?thesis using 0 by (simp add: hd_conv_nth)
  next
    case (Suc j)
    then have "j < length es" "es ! j = ShowPage" using Cons.prems(2,3) by simp_all
    from Cons.IH [OF pt this] show ?thesis using Suc by simp
  qed
qed

subsection \<open>Worked instances\<close>

lemma ex_env_simps:
  "best_fit ex_env start level (Some ''L1'') = Inr start"
  "best_fit ex_env start level (Some ''L2'') = Inr start"
  "best_fit ex_env start level (Some ''a/b'') = Inr start"
  "save_error ex_env ''L1_qrcode.png'' = None"
  "save_error ex_env ''L2_qrcode.png'' = None"
  "save_error ex_env ''a/b_qrcode.png'' = Some (FileNotFoundError ''a/b_qrcode.png'')"
  by (simp_all add: ex_env_def format_value_def)

lemma ex_paths:
  "qr_img_path (Some ''L1'') = ''L1_qrcode.png''" "qr_img_path (Some ''L2'') = ''L2_qrcode.png''"
  "qr_img_path (Some ''a/b'') = ''a/b_qrcode.png''"
  by (simp_all add: qr_img_path_def format_value_def)

lemma ex_prepared: "prepared ex_env ex_row = Some (Some ''P1'', Some ''A1'', Some ''L1'', 1)"
  by (simp add: ex_row_def row_dict_def prepared_def cells_def ex_env_simps ex_paths)

lemma ex_params_simps:
  "margin ex_params = 100" "text_margin ex_params = 2" "qr_img_size ex_params = 50"
  "line_spacing ex_params = 8" "horizontal_spacing ex_params = 20"
  "vertical_spacing ex_params = 10" "x_start ex_params = 100" "y_start ex_params = 642"
  by (simp_all add: ex_params_def set_layout_parameters_def x_start_def y_start_def letter_def)

lemma ex_wide_simps:
  "margin ex_wide = 100" "text_margin ex_wide = 2" "qr_img_size ex_wide = 50"
  "line_spacing ex_wide = 8" "horizontal_spacing ex_wide = 400"
  "vertical_spacing ex_wide = 600" "x_start ex_wide = 100" "y_start ex_wide = 642"
  by (simp_all add: ex_wide_def set_layout_parameters_def x_start_def y_start_def letter_def)

lemma ex_step:
  "step ex_env ex_params fs ex_row (x, y, ex_world) =
     Inr (fst (next_cursor ex_params (x, y)), snd (next_cursor ex_params (x, y)),
          \<lparr>files = Map.empty,
           trace = label_events ex_params fs (Some ''P1'', Some ''A1'', Some ''L1'', 1) (x, y)\<rparr>)"
  by (simp add: step_closed [OF ex_prepared] ex_world_def)

lemma ex_step_break:
  "step ex_env ex_params [''LID''] ex_row (450, 90, ex_world) =
     Inr (100, 558,
          \<lparr>files = Map.empty,
           trace = [ShowPage,
                    Save ''L1_qrcode.png'' (qr_image 1 (Some ''L1'')),
                    DrawImage ''L1_qrcode.png'' (qr_image 1 (Some ''L1'')) 100 642 50 50,
                    SetFont ''Helvetica-Bold'' 6, SetFillColor ''black'',
                    DrawString 152 659.6 ''LID: L1'',
                    Remove ''L1_qrcode.png'']\<rparr>)"
  by (simp add: ex_step next_cursor_def wrap_cursor_def next_column_def
      new_page_check_def ex_params_simps letter_def label_events_def text_events_def
      ex_paths format_value_def)



lemma ex_table_header:
  "fieldnames ex_table = Some [''project'', ''ID'', ''lid'']"
  "required_headers \<subseteq> set [''project'', ''ID'', ''lid'']"
  by (simp_all add: ex_table_def fieldnames_def required_headers_def)

lemma ex_table_check: "check_headers (fieldnames ex_table) = None"
  by (simp add: check_headers_def ex_table_header(1) required_headers_def)

lemma ex_table_rows:
  "reader_rows ex_table =
     [row_dict [''project'', ''ID'', ''lid''] [''P1'', ''A1'', ''L1''],
      row_dict [''project'', ''ID'', ''lid''] [''P2'', ''A2'', ''L2'']]"
  by (simp add: reader_rows_def ex_table_header) (simp add: ex_table_def dict_rows_def)

lemma ex_table_lids:
  "row_dict [''project'', ''ID'', ''lid''] [''P1'', ''A1'', ''L1''] ''lid'' = Some (Some ''L1'')"
  "row_dict [''project'', ''ID'', ''lid''] [''P2'', ''A2'', ''L2''] ''lid'' = Some (Some ''L2'')"
  by (simp_all add: row_dict_def)

lemma ex_table_prepared:
  "map (prepared ex_env) (reader_rows ex_table) =
     map Some [(Some ''P1'', Some ''A1'', Some ''L1'', 1), (Some ''P2'', Some ''A2'', Some ''L2'', 1)]"
  by (simp add: ex_table_rows row_dict_def prepared_def cells_def ex_env_simps ex_paths)


lemma ex_wide_report:
  "generate_child_health_report ex_env ex_table ex_wide [''LID''] Map.empty =
     Inr ([DrawImage ''L1_qrcode.png'' (qr_image 1 (Some ''L1'')) 100 642 50 50,
           SetFont ''Helvetica-Bold'' 6, SetFillColor ''black'',
           DrawString 152 659.6 ''LID: L1'',
           ShowPage,
           DrawImage ''L2_qrcode.png'' (qr_image 1 (Some ''L2'')) 100 642 50 50,
           SetFont ''Helvetica-Bold'' 6, SetFillColor ''black'',
           DrawString 152 659.6 ''LID: L2''],
          \<lparr>files = Map.empty,
           trace =
             [Save ''L1_qrcode.png'' (qr_image 1 (Some ''L1'')),
              DrawImage ''L1_qrcode.png'' (qr_image 1 (Some ''L1'')) 100 642 50 50,
              SetFont ''Helvetica-Bold'' 6, SetFillColor ''black'',
              DrawString 152 659.6 ''LID: L1'',
              Remove ''L1_qrcode.png'',
              ShowPage,
              Save ''L2_qrcode.png'' (qr_image 1 (Some ''L2'')),
              DrawImage ''L2_qrcode.png'' (qr_image 1 (Some ''L2'')) 100 642 50 50,
              SetFont ''Helvetica-Bold'' 6, SetFillColor ''black'',
              DrawString 152 659.6 ''LID: L2'',
              Remove ''L2_qrcode.png'']\<rparr>)"
  by (simp add: report_closed [OF ex_table_check ex_table_prepared] next_cursor_def
      wrap_cursor_def next_column_def new_page_check_def ex_wide_simps letter_def
      label_events_def text_events_def ex_paths format_value_def)

lemma ex_slash_header:
  "fieldnames ex_slash = Some [''project'', ''ID'', ''lid'']"
  by (simp add: ex_slash_def fieldnames_def)

lemma ex_slash_report:
  "generate_child_health_report ex_env ex_slash ex_params [''Project'', ''LID''] Map.empty =
     Inl (FileNotFoundError ''a/b_qrcode.png'', \<lparr>files = Map.empty, trace = []\<rparr>)"
proof -
  have r: "reader_rows ex_slash = [row_dict [''project'', ''ID'', ''lid''] [''P1'', ''A1'', ''a/b'']]"
    by (simp add: reader_rows_def ex_slash_header) (simp add: ex_slash_def dict_rows_def)
  have c: "check_headers (fieldnames ex_slash) = None"
    by (simp add: check_headers_def ex_slash_header required_headers_def)
  have w: "wrap_cursor ex_params (x_start ex_params, y_start ex_params) = (False, 100, 642)"
    by (simp add: wrap_cursor_def ex_params_simps)
  show ?thesis
    by (simp add: generate_child_health_report_def c r step_def w row_dict_def
        generate_qr_code_fit [OF ex_env_simps(3)] qr_save_def ex_env_simps(6) format_value_def
        Let_def)
qed

section \<open>The claims\<close>

subsection \<open>Header validation\<close>

text \<open>
  C1. The claim: every table whose header set lacks one of \<open>project\<close>, \<open>ID\<close>, \<open>lid\<close> is
  refused with the \<open>ValueError\<close> "CSV file is missing required headers" (the spec's
  ValidationError), before any record is processed. The empty table lacks all three,
  and there the code raises \<open>TypeError\<close> instead: the subset test is handed \<open>None\<close>.
  Nothing has been drawn or written at that point.
\<close>

theorem empty_table_is_not_refused_by_ValueError:
  "\<not> required_headers \<subseteq> header_set []
   \<and> generate_child_health_report ev [] p fs fsys
       = Inl (TypeError, \<lparr>files = fsys, trace = []\<rparr>)
   \<and> generate_child_health_report ev [] p fs fsys
       \<noteq> Inl (ValueError ''CSV file is missing required headers'', \<lparr>files = fsys, trace = []\<rparr>)"
  by (simp add: generate_child_health_report_def check_headers_def fieldnames_def
      header_set_def required_headers_def)

text \<open>
  Where there is a header row the code does what the claim says: the \<open>ValueError\<close> is
  raised, no document comes back, and the world is the one the call started in (no
  file written, no canvas operation), however many data rows follow.
\<close>

lemma header_row_missing_raises:
  assumes "fieldnames input_rows = Some hs"
    and "\<not> required_headers \<subseteq> set hs"
  shows "generate_child_health_report ev input_rows p fs fsys =
           Inl (ValueError ''CSV file is missing required headers'',
                \<lparr>files = fsys, trace = []\<rparr>)"
  using assms by (simp add: generate_child_health_report_def check_headers_def)

text \<open>
  C10. An empty file gives the reader no row, so its field names are \<open>None\<close> and the
  header check itself raises \<open>TypeError\<close>, before anything is drawn or written; only the
  empty file does. The check raises the \<open>ValueError\<close> "CSV file is missing required
  headers" exactly for the inputs that have a header row lacking a required column.
  Whatever the check raises is what the report raises, in the world the call started in.
\<close>

theorem empty_file_TypeError:
  "generate_child_health_report ev [] p fs fsys = Inl (TypeError, \<lparr>files = fsys, trace = []\<rparr>)
   \<and> ((check_headers (fieldnames input_rows) = Some TypeError) = (input_rows = []))
   \<and> ((check_headers (fieldnames input_rows)
          = Some (ValueError ''CSV file is missing required headers''))
        = (\<exists>hs. fieldnames input_rows = Some hs \<and> \<not> required_headers \<subseteq> set hs))
   \<and> (\<forall>e. check_headers (fieldnames input_rows) = Some e \<longrightarrow>
          generate_child_health_report ev input_rows p fs fsys
            = Inl (e, \<lparr>files = fsys, trace = []\<rparr>))"
proof (intro conjI)
  show "generate_child_health_report ev [] p fs fsys = Inl (TypeError, \<lparr>files = fsys, trace = []\<rparr>)"
    by (simp add: generate_child_health_report_def check_headers_def fieldnames_def)
next
  show "(check_headers (fieldnames input_rows) = Some TypeError) = (input_rows = [])"
    by (cases input_rows) (simp_all add: check_headers_def fieldnames_def)
next
  show "(check_headers (fieldnames input_rows)
          = Some (ValueError ''CSV file is missing required headers''))
        = (\<exists>hs. fieldnames input_rows = Some hs \<and> \<not> required_headers \<subseteq> set hs)"
    by (cases "fieldnames input_rows") (simp_all add: check_headers_def)
next
  show "\<forall>e. check_headers (fieldnames input_rows) = Some e \<longrightarrow>
          generate_child_health_report ev input_rows p fs fsys
            = Inl (e, \<lparr>files = fsys, trace = []\<rparr>)"
    by (simp add: generate_child_health_report_def)
qed

theorem empty_file_TypeError_witness:
  "generate_child_health_report ex_env [] ex_params [''LID''] Map.empty
     = Inl (TypeError, \<lparr>files = Map.empty, trace = []\<rparr>)
   \<and> check_headers (fieldnames []) = Some TypeError
   \<and> check_headers (fieldnames [[''project'', ''id'', ''lid''], [''P1'', ''A1'', ''L1'']])
       = Some (ValueError ''CSV file is missing required headers'')
   \<and> generate_child_health_report ex_env
         [[''project'', ''id'', ''lid''], [''P1'', ''A1'', ''L1'']] ex_params [''LID''] Map.empty
       = Inl (ValueError ''CSV file is missing required headers'',
              \<lparr>files = Map.empty, trace = []\<rparr>)"
proof -
  have c: "check_headers (fieldnames [[''project'', ''id'', ''lid''], [''P1'', ''A1'', ''L1'']])
             = Some (ValueError ''CSV file is missing required headers'')"
    by (simp add: check_headers_def fieldnames_def required_headers_def)
  show ?thesis
    using empty_file_TypeError [of ex_env ex_params "[''LID'']" Map.empty "[]"]
      empty_file_TypeError [of ex_env ex_params "[''LID'']" Map.empty
        "[[''project'', ''id'', ''lid''], [''P1'', ''A1'', ''L1'']]"] c
    by simp
qed

subsection \<open>Labels\<close>




subsection \<open>Column and page wrap\<close>

text \<open>
  C3. An iteration that starts below the margin advances the column; if the advanced
  \<open>x\<close> plus the image size then exceeds the page width less the margin, the page
  check answers with a page break, \<open>x = x_start\<close> and the \<open>y\<close> it was given, unchanged.
  The iteration's events begin with the page break, its one image is drawn at
  \<open>x_start\<close> and that \<open>y\<close>, and the cursor handed on has \<open>x = x_start\<close>.
\<close>

theorem page_break_resets_x:
  assumes "step ev p fs row (x, y, w) = Inr (x', y', w')"
    and "y < margin p"
    and "fst (next_column p (x, y)) + qr_img_size p > fst letter - margin p"
  shows "new_page_check p (next_column p (x, y)) = (True, x_start p, snd (next_column p (x, y)))
         \<and> (\<exists>es. new_events w w' = ShowPage # es
                 \<and> image_positions es = [(x_start p, snd (next_column p (x, y)))])
         \<and> x' = x_start p"
proof -
  obtain pv iv lv v where c: "new_events w w' = label_events p fs (pv, iv, lv, v) (x, y)"
    "(x', y') = next_cursor p (x, y)"
    using step_new_events [OF assms(1)] by blast
  have n: "new_page_check p (next_column p (x, y)) = (True, x_start p, snd (next_column p (x, y)))"
    using assms(3) by (simp add: new_page_check_def next_column_def)
  then have wc: "wrap_cursor p (x, y) = (True, x_start p, snd (next_column p (x, y)))"
    using assms(2) by (simp add: wrap_cursor_def)
  show ?thesis
    using c n wc
    by (simp add: label_events_def next_cursor_def image_positions_append image_positions_text)
qed

theorem page_break_resets_x_witness:
  "step ex_env ex_params [''LID''] ex_row (450, 90, ex_world) =
     Inr (100, 558,
          \<lparr>files = Map.empty,
           trace = [ShowPage,
                    Save ''L1_qrcode.png'' (qr_image 1 (Some ''L1'')),
                    DrawImage ''L1_qrcode.png'' (qr_image 1 (Some ''L1'')) 100 642 50 50,
                    SetFont ''Helvetica-Bold'' 6, SetFillColor ''black'',
                    DrawString 152 659.6 ''LID: L1'',
                    Remove ''L1_qrcode.png'']\<rparr>)
   \<and> (90::real) < margin ex_params
   \<and> fst (next_column ex_params (450, 90)) + qr_img_size ex_params
        > fst letter - margin ex_params
   \<and> new_page_check ex_params (next_column ex_params (450, 90)) = (True, 100, 642)
   \<and> (100::real) = x_start ex_params"
proof -
  have h2: "(90::real) < margin ex_params"
    by (simp add: ex_params_simps)
  have h3: "fst (next_column ex_params (450, 90)) + qr_img_size ex_params
              > fst letter - margin ex_params"
    by (simp add: next_column_def ex_params_simps letter_def)
  show ?thesis
    using page_break_resets_x [OF ex_step_break h2 h3] ex_step_break h2 h3
    by (simp add: next_column_def ex_params_simps)
qed



text \<open>
  C9. The page check is inside the column check, so whenever it breaks the page the
  cursor has just been put at \<open>y_start\<close>, and it puts \<open>x\<close> at \<open>x_start\<close>. In the
  document of a report that returns, every page break is followed at once by an image
  drawn at \<open>(x_start, y_start)\<close>: a page opened by a break never starts partway down.
\<close>

theorem page_break_at_top:
  assumes "generate_child_health_report ev input_rows p fs fsys = Inr (doc, w')"
  shows "(\<forall>x y x1 y1. wrap_cursor p (x, y) = (True, x1, y1) \<longrightarrow>
            y < margin p \<and> x1 = x_start p \<and> y1 = y_start p)
         \<and> (\<forall>i<length doc. doc ! i = ShowPage \<longrightarrow>
               Suc i < length doc
               \<and> (\<exists>path img wd ht.
                     doc ! Suc i = DrawImage path img (x_start p) (y_start p) wd ht))"
proof -
  obtain ts where c: "check_headers (fieldnames input_rows) = None"
    and ts: "map (prepared ev) (reader_rows input_rows) = map Some ts"
    using report_Inr [OF assms] by blast
  have doc: "doc = filter canvas_event (loop_events p fs ts (x_start p, y_start p))"
    using assms by (simp add: report_closed [OF c ts])
  have "Suc i < length doc
        \<and> (\<exists>path img wd ht. doc ! Suc i = DrawImage path img (x_start p) (y_start p) wd ht)"
    if "i < length doc" "doc ! i = ShowPage" for i
  proof -
    have "page_tops p doc" unfolding doc by (rule page_tops_loop)
    then have "Suc i < length doc" "top_image p (doc ! Suc i)"
      using page_tops_nth that by blast+
    then show ?thesis
      by (cases "doc ! Suc i") (auto simp: top_image_def)
  qed
  then show ?thesis
    using wrap_cursor_break [of p] by blast
qed

theorem page_break_at_top_witness:
  "wrap_cursor ex_wide (100, - 32) = (True, x_start ex_wide, y_start ex_wide)
   \<and> (\<exists>doc w'. generate_child_health_report ex_env ex_table ex_wide [''LID''] Map.empty
                   = Inr (doc, w')
         \<and> doc ! 4 = ShowPage
         \<and> (\<exists>path img wd ht.
               doc ! 5 = DrawImage path img (x_start ex_wide) (y_start ex_wide) wd ht))"
proof -
  have w: "wrap_cursor ex_wide (100, - 32) = (True, x_start ex_wide, y_start ex_wide)"
    by (simp add: wrap_cursor_def next_column_def new_page_check_def ex_wide_simps letter_def)
  obtain doc w' where d:
    "generate_child_health_report ex_env ex_table ex_wide [''LID''] Map.empty = Inr (doc, w')"
    using ex_wide_report by blast
  have top: "\<forall>i<length doc. doc ! i = ShowPage \<longrightarrow>
       Suc i < length doc
       \<and> (\<exists>path img wd ht. doc ! Suc i = DrawImage path img (x_start ex_wide) (y_start ex_wide) wd ht)"
    using page_break_at_top [OF d] by blast
  have "length doc = 9" "doc ! 4 = ShowPage"
    using d by (auto simp: ex_wide_report)
  then have "doc ! 4 = ShowPage
             \<and> (\<exists>path img wd ht. doc ! 5 = DrawImage path img (x_start ex_wide) (y_start ex_wide) wd ht)"
    using top [rule_format, of 4] by simp
  then show ?thesis
    using w d by blast
qed

subsection \<open>One record\<close>








subsection \<open>The temporary files\<close>

text \<open>
  C8. In the trace of a report that returns, the events on the temporary image files
  are, record after record in input order, exactly: the file is created, the image is
  placed on the canvas, the file is removed; so each file is removed after its image is
  placed and before the next record's file is created. When the report returns, no
  record's file is there, and no file is there that was not there before the call.
  A report that raises leaves no new file either.
\<close>

theorem artifact_released:
  "(\<forall>doc w'. generate_child_health_report ev input_rows p fs fsys = Inr (doc, w') \<longrightarrow>
       lifecycle (trace w') = concat (map row_lifecycle (reader_rows input_rows))
       \<and> (\<forall>row \<in> set (reader_rows input_rows). \<forall>lv.
             row ''lid'' = Some lv \<longrightarrow> files w' (qr_img_path lv) = None)
       \<and> dom (files w') \<subseteq> dom fsys)
   \<and> (\<forall>e w'. generate_child_health_report ev input_rows p fs fsys = Inl (e, w') \<longrightarrow>
         dom (files w') \<subseteq> dom fsys)"
proof (intro conjI allI impI)
  fix doc w'
  assume r: "generate_child_health_report ev input_rows p fs fsys = Inr (doc, w')"
  obtain ts where c: "check_headers (fieldnames input_rows) = None"
    and ts: "map (prepared ev) (reader_rows input_rows) = map Some ts"
    using report_Inr [OF r] by blast
  have w': "w' = \<lparr>files = remove_paths ts fsys,
                  trace = loop_events p fs ts (x_start p, y_start p)\<rparr>"
    using r by (simp add: report_closed [OF c ts])
  show "lifecycle (trace w') = concat (map row_lifecycle (reader_rows input_rows))"
    by (simp add: w' lifecycle_loop [OF ts])
  show "\<forall>row \<in> set (reader_rows input_rows). \<forall>lv.
          row ''lid'' = Some lv \<longrightarrow> files w' (qr_img_path lv) = None"
    using prepared_lid_paths [OF ts] by (simp add: w' remove_paths_apply)
  show "dom (files w') \<subseteq> dom fsys"
    by (auto simp: w' remove_paths_apply dom_def)
next
  fix e w'
  assume r: "generate_child_health_report ev input_rows p fs fsys = Inl (e, w')"
  show "dom (files w') \<subseteq> dom fsys"
  proof (cases "check_headers (fieldnames input_rows)")
    case (Some e')
    then show ?thesis using r by (auto simp: generate_child_health_report_def)
  next
    case None
    then have "rows_loop ev p fs (reader_rows input_rows)
                 (x_start p, y_start p, \<lparr>files = fsys, trace = []\<rparr>) = Inl (e, w')"
      using r
      by (cases "rows_loop ev p fs (reader_rows input_rows)
                   (x_start p, y_start p, \<lparr>files = fsys, trace = []\<rparr>)")
         (auto simp: generate_child_health_report_def)
    then show ?thesis using rows_loop_Inl_dom by fastforce
  qed
qed

theorem artifact_released_witness:
  "(\<exists>doc w'. generate_child_health_report ex_env ex_table ex_params [''Project'', ''LID'']
                 [''old.png'' \<mapsto> qr_image 1 None] = Inr (doc, w')
       \<and> lifecycle (trace w') =
           [Created ''L1_qrcode.png'', Placed ''L1_qrcode.png'', Released ''L1_qrcode.png'',
            Created ''L2_qrcode.png'', Placed ''L2_qrcode.png'', Released ''L2_qrcode.png'']
       \<and> files w' ''L1_qrcode.png'' = None
       \<and> files w' ''L2_qrcode.png'' = None
       \<and> dom (files w') \<subseteq> {''old.png''})
   \<and> (\<exists>e w'. generate_child_health_report ex_env ex_slash ex_params [''Project'', ''LID'']
                 Map.empty = Inl (e, w')
         \<and> dom (files w') \<subseteq> {})"
proof -
  have c: "concat (map row_lifecycle (reader_rows ex_table)) =
             [Created ''L1_qrcode.png'', Placed ''L1_qrcode.png'', Released ''L1_qrcode.png'',
              Created ''L2_qrcode.png'', Placed ''L2_qrcode.png'', Released ''L2_qrcode.png'']"
    by (simp add: ex_table_rows row_lifecycle_def ex_table_lids ex_paths)
  obtain doc w' where d:
    "generate_child_health_report ex_env ex_table ex_params [''Project'', ''LID'']
       [''old.png'' \<mapsto> qr_image 1 None] = Inr (doc, w')"
    using report_closed [OF ex_table_check ex_table_prepared] by blast
  note t = artifact_released [of ex_env ex_table ex_params "[''Project'', ''LID'']"
      "[''old.png'' \<mapsto> qr_image 1 None]", THEN conjunct1, rule_format, OF d]
  have l: "lifecycle (trace w') = concat (map row_lifecycle (reader_rows ex_table))"
    using t by blast
  have a: "\<forall>row \<in> set (reader_rows ex_table). \<forall>lv.
             row ''lid'' = Some lv \<longrightarrow> files w' (qr_img_path lv) = None"
    using t by blast
  have "files w' (qr_img_path (Some ''L1'')) = None" "files w' (qr_img_path (Some ''L2'')) = None"
    using a ex_table_lids by (simp_all add: ex_table_rows)
  then have f: "files w' ''L1_qrcode.png'' = None" "files w' ''L2_qrcode.png'' = None"
    by (simp_all add: ex_paths)
  have "dom (files w') \<subseteq> dom [''old.png'' \<mapsto> qr_image 1 None]"
    using t by blast
  then have o: "dom (files w') \<subseteq> {''old.png''}" by simp
  have "dom (files \<lparr>files = Map.empty, trace = []\<rparr>) \<subseteq> {}" by simp
  then have s: "\<exists>e w'. generate_child_health_report ex_env ex_slash ex_params
                          [''Project'', ''LID''] Map.empty = Inl (e, w')
                  \<and> dom (files w') \<subseteq> {}"
    using ex_slash_report by blast
  show ?thesis
    using d l f o s unfolding c by blast
qed

end
